theory Spec2Isabelle
  imports Main "HOL-Library.Sublist" "HOL-Library.Word"
begin

section \<open>Common vocabulary: Go errors, panics and outcomes\<close>

text \<open>
  A Go \<open>error\<close> value is represented by the text that \<open>err.Error()\<close> yields; a
  \<open>nil\<close> error is \<open>None\<close> of \<open>error option\<close>. A call either returns or panics:
  a panic is the explicit \<open>panic(err)\<close> of the source, a slice bound that is out of
  range, or a method called through a \<open>nil\<close> pointer.
\<close>

type_synonym error = string

datatype panic = PanicError error | SliceOutOfRange | NilPointerDereference

datatype 'a outcome = Returns 'a | Panics panic

section \<open>Package auth: the credentials spliced into the Grafana URL\<close>

record AuthConfig =
  Username :: string
  Password :: string
  URL :: string

text \<open>\<open>config.Username + ":" + config.Password + "@"\<close>\<close>

definition AuthString :: "AuthConfig \<Rightarrow> string" where
  "AuthString config = Username config @ '':'' @ Password config @ ''@''"

text \<open>
  Both regular expressions of \<open>InjectAuthString\<close> are compiled from a text without any
  metacharacter (\<open>http://\<close> and \<open>https://\<close>), so the compiled expression matches
  exactly its own text. \<open>FindStringIndex\<close> returns the bounds \<open>[lo, hi)\<close> of the
  leftmost match, or \<open>nil\<close> when there is none. Go strings are byte sequences and the
  bounds are byte offsets, as are the positions of a \<open>char list\<close>.
\<close>

datatype Regexp = Literal string

definition MustCompile :: "string \<Rightarrow> Regexp" where
  "MustCompile str = Literal str"

fun find_literal :: "string \<Rightarrow> string \<Rightarrow> (nat \<times> nat) option" where
  "find_literal pat [] = (if pat = [] then Some (0, 0) else None)"
| "find_literal pat (c # cs) =
     (if prefix pat (c # cs) then Some (0, length pat)
      else map_option (\<lambda>(lo, hi). (Suc lo, Suc hi)) (find_literal pat cs))"

fun FindStringIndex :: "Regexp \<Rightarrow> string \<Rightarrow> (nat \<times> nat) option" where
  "FindStringIndex (Literal pat) s = find_literal pat s"

text \<open>
  The slice expressions \<open>s[:n]\<close> and \<open>s[n:]\<close> panic when \<open>n\<close> exceeds the length of
  the string.
\<close>

definition slice_to :: "string \<Rightarrow> nat \<Rightarrow> string outcome" where
  "slice_to s n = (if n \<le> length s then Returns (take n s) else Panics SliceOutOfRange)"

definition slice_from :: "string \<Rightarrow> nat \<Rightarrow> string outcome" where
  "slice_from s n = (if n \<le> length s then Returns (drop n s) else Panics SliceOutOfRange)"

text \<open>
  \<open>config.URL[:index[1]] + config.AuthString() + config.URL[index[1]:]\<close>, the operands
  evaluated from left to right.
\<close>

definition splice_at :: "AuthConfig \<Rightarrow> nat \<times> nat \<Rightarrow> string outcome" where
  "splice_at config index =
     (case slice_to (URL config) (snd index) of
        Panics p \<Rightarrow> Panics p
      | Returns front \<Rightarrow>
          (case slice_from (URL config) (snd index) of
             Panics p \<Rightarrow> Panics p
           | Returns back \<Rightarrow> Returns (front @ AuthString config @ back)))"

text \<open>
  The expression for \<open>http://\<close> is tried first; the one for \<open>https://\<close> only when the
  first has no match. With no match at all the function logs and returns the empty
  string (the log line has no effect on the result and is left out).
\<close>

definition InjectAuthString :: "AuthConfig \<Rightarrow> string outcome" where
  "InjectAuthString config =
     (let http = MustCompile ''http://'';
          https = MustCompile ''https://''
      in case FindStringIndex http (URL config) of
           Some index \<Rightarrow> splice_at config index
         | None \<Rightarrow>
             (case FindStringIndex https (URL config) of
                Some index \<Rightarrow> splice_at config index
              | None \<Rightarrow> Returns ''''))"

definition AuthURL :: "AuthConfig \<Rightarrow> string outcome" where
  "AuthURL config = InjectAuthString config"

section \<open>Package dbstore: the SQLite datasource\<close>

subsection \<open>The path of the database file\<close>

text \<open>
  \<open>filepath.Join\<close> of the Go standard library, for the Unix path separator: the
  elements from the first non-empty one on are joined with \<open>/\<close> and the result is
  cleaned. \<open>Clean\<close> works on the components between separators: it drops empty
  components and \<open>.\<close>, lets \<open>..\<close> cancel the component before it, drops \<open>..\<close> at the
  root and keeps it at the start of a relative path; the empty result is \<open>.\<close>.
\<close>

definition Separator :: char where
  "Separator = CHR ''/''"

fun split_path :: "string \<Rightarrow> string list" where
  "split_path [] = [[]]"
| "split_path (c # cs) =
     (if c = Separator then [] # split_path cs
      else (case split_path cs of
              [] \<Rightarrow> [[c]]
            | part # parts \<Rightarrow> (c # part) # parts))"

fun strings_Join :: "string list \<Rightarrow> string \<Rightarrow> string" where
  "strings_Join [] sep = []"
| "strings_Join [e] sep = e"
| "strings_Join (e # es) sep = e @ sep @ strings_Join es sep"

definition clean_component :: "bool \<Rightarrow> string list \<Rightarrow> string \<Rightarrow> string list" where
  "clean_component rooted out part =
     (if part = [] \<or> part = ''.'' then out
      else if part = ''..'' then
        (case out of
           [] \<Rightarrow> (if rooted then [] else [part])
         | prev # rest \<Rightarrow> (if prev = ''..'' then part # out else rest))
      else part # out)"

definition Clean :: "string \<Rightarrow> string" where
  "Clean path =
     (if path = [] then ''.''
      else
        (let rooted = (hd path = Separator);
             out = rev (foldl (clean_component rooted) [] (split_path path));
             cleaned = strings_Join out [Separator]
         in if rooted then Separator # cleaned
            else if cleaned = [] then ''.'' else cleaned))"

definition Join :: "string list \<Rightarrow> string" where
  "Join elem =
     (case dropWhile (\<lambda>e. e = []) elem of
        [] \<Rightarrow> []
      | e # es \<Rightarrow> Clean (strings_Join (e # es) [Separator]))"

subsection \<open>The datasource and the calls it makes into \<open>database/sql\<close>\<close>

datatype InstanceManager = NewInstanceManager

record SQLiteDatasource =
  instanceManager :: InstanceManager
  Path :: string

text \<open>
  The database file is represented by its schema: the tables it holds, in order of
  creation, each with the statement that created it.
\<close>

type_synonym database = "(string \<times> string) list"

text \<open>
  What \<open>database/sql\<close> and the SQLite driver answer is not decided by this program
  (the file may be missing, locked or read-only), so the answers are parameters of the
  model. \<open>ping_calls\<close> holds the answers to the two calls made by \<open>Ping\<close>;
  \<open>init_calls\<close> those to the calls made by \<open>Init\<close>, where \<open>Prepare\<close> and \<open>Exec\<close>
  are given per statement text. \<open>None\<close> is a \<open>nil\<close> error.
\<close>

record ping_calls =
  ping_Open :: "error option"
  ping_Ping :: "error option"

record init_calls =
  init_ping :: ping_calls
  init_Open :: "error option"
  init_Prepare :: "string \<Rightarrow> error option"
  init_Exec :: "string \<Rightarrow> error option"

text \<open>
  \<open>sql.Open\<close> and \<open>db.Prepare\<close> return a handle together with an error; the handle is
  \<open>nil\<close> exactly when the error is not. \<open>Close\<close> and \<open>Exec\<close> called on a \<open>nil\<close>
  handle dereference it and panic.
\<close>

datatype DB = DB string

datatype Stmt = Stmt string

definition sql_Open :: "error option \<Rightarrow> string \<Rightarrow> DB option \<times> error option" where
  "sql_Open answer path =
     (case answer of Some e \<Rightarrow> (None, Some e) | None \<Rightarrow> (Some (DB path), None))"

definition DB_Close :: "DB option \<Rightarrow> unit outcome" where
  "DB_Close db = (case db of None \<Rightarrow> Panics NilPointerDereference | Some h \<Rightarrow> Returns ())"

definition DB_Prepare :: "error option \<Rightarrow> string \<Rightarrow> Stmt option \<times> error option" where
  "DB_Prepare answer query =
     (case answer of Some e \<Rightarrow> (None, Some e) | None \<Rightarrow> (Some (Stmt query), None))"

text \<open>
  A deferred call runs when the function leaves, by return or by panic; when the
  deferred call itself panics, the function panics with that.
\<close>

definition deferred :: "unit outcome \<Rightarrow> 'a outcome \<Rightarrow> 'a outcome" where
  "deferred call body = (case call of Panics p \<Rightarrow> Panics p | Returns u \<Rightarrow> body)"

text \<open>
  The statements of \<open>Init\<close> all have the form \<open>CREATE TABLE IF NOT EXISTS name (...)\<close>.
  Executing one adds the table when the database has no table of that name and changes
  nothing otherwise. A text of any other form is not interpreted.
\<close>

definition create_table_if_not_exists :: string where
  "create_table_if_not_exists = ''CREATE TABLE IF NOT EXISTS ''"

definition table_name :: "string \<Rightarrow> string option" where
  "table_name query =
     (if prefix create_table_if_not_exists query
      then Some (takeWhile (\<lambda>c. c \<noteq> CHR '' '') (drop (length create_table_if_not_exists) query))
      else None)"

definition sqlite_exec :: "string \<Rightarrow> database \<Rightarrow> database" where
  "sqlite_exec query db =
     (case table_name query of
        None \<Rightarrow> db
      | Some name \<Rightarrow> (if name \<in> set (map fst db) then db else db @ [(name, query)]))"

definition Stmt_Exec ::
  "(string \<Rightarrow> error option) \<Rightarrow> Stmt option \<Rightarrow> database \<Rightarrow> database \<times> error option outcome" where
  "Stmt_Exec answer stmt db =
     (case stmt of
        None \<Rightarrow> (db, Panics NilPointerDereference)
      | Some (Stmt query) \<Rightarrow>
          (case answer query of
             Some e \<Rightarrow> (db, Returns (Some e))
           | None \<Rightarrow> (sqlite_exec query db, Returns None)))"

subsection \<open>\<open>Ping\<close> and \<open>CheckHealth\<close>\<close>

text \<open>
  \<open>Ping\<close> opens the database, defers \<open>db.Close()\<close> before it looks at the error of
  \<open>sql.Open\<close>, and returns the first error it meets.
\<close>

definition Ping :: "ping_calls \<Rightarrow> SQLiteDatasource \<Rightarrow> error option outcome" where
  "Ping w datasource =
     (let (db, err) = sql_Open (ping_Open w) (Path datasource)
      in deferred (DB_Close db)
           (if err \<noteq> None then Returns err
            else (let err = ping_Ping w
                  in if err \<noteq> None then Returns err else Returns None)))"

datatype HealthStatus = HealthStatusUnknown | HealthStatusOk | HealthStatusError

record CheckHealthResult =
  Status :: HealthStatus
  Message :: string

definition CheckHealth ::
  "ping_calls \<Rightarrow> SQLiteDatasource \<Rightarrow> 'req \<Rightarrow> (CheckHealthResult \<times> error option) outcome" where
  "CheckHealth w datasource req =
     (case Ping w datasource of
        Panics p \<Rightarrow> Panics p
      | Returns err \<Rightarrow>
          (let (status, message) =
                 (case err of
                    Some e \<Rightarrow> (HealthStatusError, ''Could not ping the database: '' @ e)
                  | None \<Rightarrow> (HealthStatusOk, ''Yeah, nah, All good''))
           in Returns (\<lparr>Status = status, Message = message\<rparr>, None)))"

subsection \<open>\<open>Init\<close> and \<open>GetDataSource\<close>\<close>

definition Schedule_statement :: string where
  "Schedule_statement = ''CREATE TABLE IF NOT EXISTS Schedule (id TEXT PRIMARY KEY, interval INTEGER, nextReportTime INTEGER, name TEXT, description TEXT, lookback INTEGER, reportGroupID TEXT, time TEXT, day INTEGER, FOREIGN KEY(reportGroupID) REFERENCES ReportGroup(id))''"

definition Config_statement :: string where
  "Config_statement = ''CREATE TABLE IF NOT EXISTS Config (id TEXT PRIMARY KEY, grafanaUsername TEXT, grafanaPassword TEXT, emailPassword TEXT, email TEXT, datasourceID INTEGER, emailHost TEXT, emailPort INTEGER, grafanaURL TEXT)''"

definition ReportGroup_statement :: string where
  "ReportGroup_statement = ''CREATE TABLE IF NOT EXISTS ReportGroup (id TEXT PRIMARY KEY, name TEXT, description TEXT)''"

definition ReportGroupMembership_statement :: string where
  "ReportGroupMembership_statement = ''CREATE TABLE IF NOT EXISTS ReportGroupMembership (id TEXT PRIMARY KEY, userID TEXT, reportGroupID TEXT, FOREIGN KEY(reportGroupID) REFERENCES ReportGroup(id))''"

definition ReportContent_statement :: string where
  "ReportContent_statement = ''CREATE TABLE IF NOT EXISTS ReportContent (id TEXT PRIMARY KEY, scheduleID TEXT, panelID INTEGER, dashboardID TEXT, lookback INTEGER, variables TEXT, FOREIGN KEY(scheduleID) REFERENCES Schedule(id))''"

definition Init_statements :: "string list" where
  "Init_statements =
     [Schedule_statement, Config_statement, ReportGroup_statement,
      ReportGroupMembership_statement, ReportContent_statement]"

text \<open>
  One block of \<open>Init\<close>: \<open>stmt, err = db.Prepare(...)\<close>, then \<open>stmt.Exec()\<close> with its
  result dropped, and only then \<open>if err != nil { panic(err) }\<close> on the error of
  \<open>Prepare\<close>. (The first block also defers \<open>stmt.Close()\<close>, on a handle that is not
  \<open>nil\<close> at that point; closing it changes nothing here.)
\<close>

definition prepare_and_exec :: "init_calls \<Rightarrow> string \<Rightarrow> database \<Rightarrow> database \<times> unit outcome" where
  "prepare_and_exec w query db =
     (let (stmt, err) = DB_Prepare (init_Prepare w query) query
      in case Stmt_Exec (init_Exec w) stmt db of
           (db', Panics p) \<Rightarrow> (db', Panics p)
         | (db', Returns dropped) \<Rightarrow>
             (case err of
                Some e \<Rightarrow> (db', Panics (PanicError e))
              | None \<Rightarrow> (db', Returns ())))"

fun create_tables :: "init_calls \<Rightarrow> string list \<Rightarrow> database \<Rightarrow> database \<times> unit outcome" where
  "create_tables w [] db = (db, Returns ())"
| "create_tables w (query # queries) db =
     (case prepare_and_exec w query db of
        (db', Panics p) \<Rightarrow> (db', Panics p)
      | (db', Returns u) \<Rightarrow> create_tables w queries db')"

definition Init :: "init_calls \<Rightarrow> SQLiteDatasource \<Rightarrow> database \<Rightarrow> database \<times> unit outcome" where
  "Init w datasource db0 =
     (case Ping (init_ping w) datasource of
        Panics p \<Rightarrow> (db0, Panics p)
      | Returns (Some e) \<Rightarrow> (db0, Panics (PanicError e))
      | Returns None \<Rightarrow>
          (let (db, err) = sql_Open (init_Open w) (Path datasource);
               (db1, body) =
                 (case err of
                    Some e \<Rightarrow> (db0, Panics (PanicError e))
                  | None \<Rightarrow> create_tables w Init_statements db0)
           in (db1, deferred (DB_Close db) body)))"

definition GetDataSource :: "init_calls \<Rightarrow> database \<Rightarrow> database \<times> SQLiteDatasource outcome" where
  "GetDataSource w db0 =
     (let dataPath = Join [''..'', ''data'', ''msupply.db''];
          sqlDatasource = \<lparr>instanceManager = NewInstanceManager, Path = dataPath\<rparr>
      in case Init w sqlDatasource db0 of
           (db1, Panics p) \<Rightarrow> (db1, Panics p)
         | (db1, Returns u) \<Rightarrow> (db1, Returns sqlDatasource))"

subsection \<open>\<open>QueryData\<close>\<close>

type_synonym time_Time = int

record TimeRange =
  From :: time_Time
  To :: time_Time

record DataQuery =
  RefID :: string
  JSON :: string
  TimeRange :: TimeRange

record queryModel =
  Format :: string

datatype FieldValues = TimeValues "time_Time list" | Int64Values "64 word list"

record Field =
  FieldName :: string
  Values :: FieldValues

record Frame =
  FrameName :: string
  Fields :: "Field list"

record DataResponse =
  Frames :: "Frame list"
  Error :: "error option"

record QueryDataRequest =
  Queries :: "DataQuery list"

record QueryDataResponse =
  Responses :: "string \<rightharpoonup> DataResponse"

definition NewFrame :: "string \<Rightarrow> Frame" where
  "NewFrame name = \<lparr>FrameName = name, Fields = []\<rparr>"

definition NewField :: "string \<Rightarrow> FieldValues \<Rightarrow> Field" where
  "NewField name vals = \<lparr>FieldName = name, Values = vals\<rparr>"

definition NewQueryDataResponse :: QueryDataResponse where
  "NewQueryDataResponse = \<lparr>Responses = Map.empty\<rparr>"

text \<open>
  \<open>json.Unmarshal\<close> is a parameter: from the JSON text of the query it gives the
  decoded model and an error. \<open>query\<close> stores that error in the response and
  overwrites it in the next line.
\<close>

definition query :: "(string \<Rightarrow> queryModel \<times> error option) \<Rightarrow> DataQuery \<Rightarrow> DataResponse" where
  "query Unmarshal q =
     (let response = \<lparr>Frames = [], Error = None\<rparr>;
          (queryModel, err) = Unmarshal (JSON q);
          response = response\<lparr>Error := err\<rparr>;
          response = response\<lparr>Error := Some ''Queries are not supported!''\<rparr>
      in if Error response \<noteq> None then response
         else
           (let frame = NewFrame ''response'';
                frame = frame\<lparr>Fields := Fields frame @
                          [NewField ''time'' (TimeValues [From (TimeRange q), To (TimeRange q)])]\<rparr>;
                frame = frame\<lparr>Fields := Fields frame @
                          [NewField ''values'' (Int64Values [10, 20])]\<rparr>
            in response\<lparr>Frames := Frames response @ [frame]\<rparr>))"

definition QueryData ::
  "(string \<Rightarrow> queryModel \<times> error option) \<Rightarrow> QueryDataRequest \<Rightarrow> QueryDataResponse \<times> error option" where
  "QueryData Unmarshal request =
     (let response = NewQueryDataResponse;
          response = foldl (\<lambda>response q.
                        response\<lparr>Responses := (Responses response)(RefID q \<mapsto> query Unmarshal q)\<rparr>)
                      response (Queries request)
      in (response, None))"

section \<open>Package auth: building the configuration from the stored settings\<close>

text \<open>
  The fields of the settings row that the source files read. \<open>GetSettings\<close> itself is
  a database read whose answer is a parameter: \<open>Inl\<close> an error, \<open>Inr\<close> the settings.
\<close>

record Settings =
  GrafanaUsername :: string
  GrafanaPassword :: string
  GrafanaURL :: string
  DatasourceID :: int

definition NewAuthConfig :: "error + Settings \<Rightarrow> error + AuthConfig" where
  "NewAuthConfig GetSettings =
     (case GetSettings of
        Inl err \<Rightarrow> Inl err
      | Inr settings \<Rightarrow>
          Inr \<lparr>Username = GrafanaUsername settings, Password = GrafanaPassword settings,
               URL = GrafanaURL settings\<rparr>)"

section \<open>Package server: the test-email handler\<close>

text \<open>
  Modelled from the spec: the declaration of the \<open>Schedule\<close> struct is not among the
  source files; its fields are those the specification lists for the entity, with the
  column types of the \<open>Schedule\<close> table that \<open>Init\<close> creates.
\<close>

record Schedule =
  ID :: string
  Interval :: int
  NextReportTime :: int
  Name :: string
  Description :: string
  Lookback :: int
  ReportGroupID :: string
  Time :: string
  Day :: int

text \<open>
  The response writer records the status line, which only the first \<open>WriteHeader\<close>
  sets, and the body. \<open>http.Error\<close> writes the status and then the message followed
  by a newline.
\<close>

record ResponseWriter =
  rw_status :: "nat option"
  rw_body :: string

definition StatusOK :: nat where
  "StatusOK = 200"

definition StatusBadRequest :: nat where
  "StatusBadRequest = 400"

definition StatusInternalServerError :: nat where
  "StatusInternalServerError = 500"

definition WriteHeader :: "ResponseWriter \<Rightarrow> nat \<Rightarrow> ResponseWriter" where
  "WriteHeader rw code = (if rw_status rw = None then rw\<lparr>rw_status := Some code\<rparr> else rw)"

definition http_Error :: "ResponseWriter \<Rightarrow> string \<Rightarrow> nat \<Rightarrow> ResponseWriter" where
  "http_Error rw msg code =
     (let rw = WriteHeader rw code
      in rw\<lparr>rw_body := rw_body rw @ msg @ [CHR 0x0A]\<rparr>)"

text \<open>
  The request carries the route variables that \<open>mux.Vars\<close> returns; reading a
  variable that is not set gives the empty string.
\<close>

record Request =
  Vars :: "string \<rightharpoonup> string"

datatype 'ec Emailer = Emailer 'ec

definition emailer_New :: "'ec \<Rightarrow> 'ec Emailer" where
  "emailer_New emailConfig = Emailer emailConfig"

type_synonym 'ec report_call = "Schedule \<times> AuthConfig \<times> int \<times> 'ec Emailer"

text \<open>
  The collaborators of the handler are not among the source files, so their answers
  are parameters: \<open>auth.NewEmailConfig\<close>, the \<open>GetSettings\<close> call inside
  \<open>auth.NewAuthConfig\<close>, the handler's own \<open>GetSettings\<close> call, \<open>GetSchedule\<close> per
  schedule id, and whether \<open>CreateReport\<close> returns or panics for its arguments.
\<close>

record 'ec server_calls =
  answer_NewEmailConfig :: "error + 'ec"
  answer_NewAuthConfig_GetSettings :: "error + Settings"
  answer_GetSettings :: "error + Settings"
  answer_GetSchedule :: "string \<Rightarrow> error + Schedule"
  answer_CreateReport :: "'ec report_call \<Rightarrow> unit outcome"

text \<open>
  The handler returns the response writer as it has left it, the calls of
  \<open>CreateReport\<close> it has made, and whether it returned or panicked.
\<close>

definition testEmail ::
  "'ec server_calls \<Rightarrow> ResponseWriter \<Rightarrow> Request
     \<Rightarrow> (ResponseWriter \<times> 'ec report_call list) \<times> unit outcome" where
  "testEmail w rw request =
     (let vars = Vars request;
          id' = (case vars ''schedule-id'' of None \<Rightarrow> [] | Some v \<Rightarrow> v)
      in case answer_NewEmailConfig w of
           Inl err \<Rightarrow>
             ((http_Error rw err StatusInternalServerError, []), Panics (PanicError err))
         | Inr emailConfig \<Rightarrow>
        (case NewAuthConfig (answer_NewAuthConfig_GetSettings w) of
           Inl err \<Rightarrow>
             ((http_Error rw err StatusInternalServerError, []), Panics (PanicError err))
         | Inr authConfig \<Rightarrow>
        (case answer_GetSettings w of
           Inl err \<Rightarrow>
             ((http_Error rw err StatusInternalServerError, []), Panics (PanicError err))
         | Inr settings \<Rightarrow>
        (case answer_GetSchedule w id' of
           Inl err \<Rightarrow>
             ((http_Error rw err StatusBadRequest, []), Panics (PanicError err))
         | Inr schedule \<Rightarrow>
             (let em = emailer_New emailConfig;
                  call = (schedule, authConfig, DatasourceID settings, em)
              in case answer_CreateReport w call of
                   Panics p \<Rightarrow> ((rw, [call]), Panics p)
                 | Returns u \<Rightarrow> ((WriteHeader rw StatusOK, [call]), Returns ()))))))"

section \<open>The Schedule table as a store\<close>

text \<open>
  Modelled from the spec: the functions that write and read a \<open>Schedule\<close> row are not
  among the source files. The specification says that every entity is persisted as a
  SQLite row and that a \<open>Schedule\<close> that is written is read back unchanged. The model
  keeps the table as a map from the primary key \<open>id\<close> to the row, a row being the
  column values in the order of the \<open>CREATE TABLE\<close> statement of \<open>Init\<close>; writing
  stores the row under the schedule's id, reading decodes the row found under an id.
\<close>

datatype sql_value = TEXT string | INTEGER int

type_synonym schedule_table = "string \<rightharpoonup> sql_value list"

definition Schedule_to_row :: "Schedule \<Rightarrow> sql_value list" where
  "Schedule_to_row s =
     [TEXT (ID s), INTEGER (Interval s), INTEGER (NextReportTime s), TEXT (Name s),
      TEXT (Description s), INTEGER (Lookback s), TEXT (ReportGroupID s), TEXT (Time s),
      INTEGER (Day s)]"

fun row_to_Schedule :: "sql_value list \<Rightarrow> Schedule option" where
  "row_to_Schedule [TEXT i, INTEGER iv, INTEGER nrt, TEXT n, TEXT d, INTEGER lb, TEXT rg,
                    TEXT t, INTEGER dy] =
     Some \<lparr>ID = i, Interval = iv, NextReportTime = nrt, Name = n, Description = d,
           Lookback = lb, ReportGroupID = rg, Time = t, Day = dy\<rparr>"
| "row_to_Schedule row = None"

definition WriteSchedule :: "Schedule \<Rightarrow> schedule_table \<Rightarrow> schedule_table" where
  "WriteSchedule s table = table(ID s \<mapsto> Schedule_to_row s)"

definition ReadSchedule :: "string \<Rightarrow> schedule_table \<Rightarrow> Schedule option" where
  "ReadSchedule i table = (case table i of None \<Rightarrow> None | Some row \<Rightarrow> row_to_Schedule row)"

section \<open>Properties of \<open>InjectAuthString\<close>\<close>

text \<open>
  \<open>find_literal\<close> has no match exactly when the text does not occur, and it finds the
  occurrence that no other occurrence precedes.
\<close>

lemma find_literal_None: "find_literal pat s = None \<longleftrightarrow> \<not> sublist pat s"
  by (induction s) (auto simp: sublist_Cons_right)

lemma prefix_short: "prefix pat (xs @ ys) \<Longrightarrow> length pat \<le> length xs \<Longrightarrow> prefix pat xs"
  by (metis prefix_def take_is_prefix append_eq_conv_conj take_append take_all_iff diff_is_0_eq' take0 append_Nil2 prefix_order.order_trans prefix_length_prefix prefixI)

lemma find_literal_first:
  "pat \<noteq> [] \<Longrightarrow> \<not> sublist pat (pre @ butlast pat)
    \<Longrightarrow> find_literal pat (pre @ pat @ post) = Some (length pre, length pre + length pat)"
proof (induction pre)
  case Nil
  then show ?case by (cases pat) auto
next
  case (Cons a pre)
  have np: "\<not> prefix pat (a # pre @ pat @ post)"
  proof
    assume p: "prefix pat (a # pre @ pat @ post)"
    have "prefix pat ((a # pre @ butlast pat) @ ([last pat] @ post))"
    proof -
      have "pat = butlast pat @ [last pat]" using Cons.prems(1) by simp
      then have "pre @ pat @ post = pre @ butlast pat @ [last pat] @ post" by (metis append_assoc)
      with p show ?thesis by simp
    qed
    moreover have "length pat \<le> length (a # pre @ butlast pat)" by simp
    ultimately have "prefix pat (a # pre @ butlast pat)" by (rule prefix_short)
    then show False using Cons.prems(2) by auto
  qed
  have "\<not> sublist pat (pre @ butlast pat)"
    using Cons.prems(2) by (auto simp: sublist_Cons_right)
  with Cons.IH Cons.prems(1) have "find_literal pat (pre @ pat @ post) = Some (length pre, length pre + length pat)"
    by simp
  with np show ?case by simp
qed

lemma splice_at_match:
  "URL config = pre @ pat @ post \<Longrightarrow>
   splice_at config (length pre, length pre + length pat) =
     Returns (pre @ pat @ Username config @ '':'' @ Password config @ ''@'' @ post)"
  by (simp add: splice_at_def slice_to_def slice_from_def AuthString_def)

text \<open>
  Claim C1. When the URL contains \<open>http://\<close>, the credentials \<open>Username:Password@\<close>
  are spliced in right after the first occurrence of \<open>http://\<close>, wherever it is in the
  URL (also behind an earlier \<open>https://\<close>); when it does not contain \<open>http://\<close> but
  contains \<open>https://\<close>, they are spliced in right after the first occurrence of
  \<open>https://\<close>. The text before and after stays as it is. That the occurrence at
  \<open>pre\<close> is the first one is stated as: the scheme does not occur in \<open>pre\<close> followed
  by the scheme without its last character.
\<close>

theorem InjectAuthString_splices_after_scheme:
  "(URL config = pre @ ''http://'' @ post \<and> \<not> sublist ''http://'' (pre @ ''http:/'')
      \<longrightarrow> InjectAuthString config = Returns (pre @ ''http://'' @ Username config @ '':'' @ Password config @ ''@'' @ post))
   \<and> (\<not> sublist ''http://'' (URL config)
       \<and> URL config = pre @ ''https://'' @ post \<and> \<not> sublist ''https://'' (pre @ ''https:/'')
      \<longrightarrow> InjectAuthString config = Returns (pre @ ''https://'' @ Username config @ '':'' @ Password config @ ''@'' @ post))"
proof (intro conjI impI)
  assume h: "URL config = pre @ ''http://'' @ post \<and> \<not> sublist ''http://'' (pre @ ''http:/'')"
  have "find_literal ''http://'' (pre @ ''http://'' @ post)
          = Some (length pre, length pre + length ''http://'')"
    using h by (intro find_literal_first) simp_all
  then have "FindStringIndex (MustCompile ''http://'') (URL config)
          = Some (length pre, length pre + length ''http://'')"
    using h by (simp add: MustCompile_def)
  moreover have "splice_at config (length pre, length pre + length ''http://'')
          = Returns (pre @ ''http://'' @ Username config @ '':'' @ Password config @ ''@'' @ post)"
    using h by (intro splice_at_match) simp
  ultimately show "InjectAuthString config = Returns (pre @ ''http://'' @ Username config @ '':'' @ Password config @ ''@'' @ post)"
    by (simp add: InjectAuthString_def Let_def)
next
  assume h: "\<not> sublist ''http://'' (URL config)
       \<and> URL config = pre @ ''https://'' @ post \<and> \<not> sublist ''https://'' (pre @ ''https:/'')"
  from h have "\<not> sublist ''http://'' (URL config)" by (rule conjunct1)
  then have none: "FindStringIndex (MustCompile ''http://'') (URL config) = None"
    by (simp add: MustCompile_def find_literal_None)
  have "find_literal ''https://'' (pre @ ''https://'' @ post)
          = Some (length pre, length pre + length ''https://'')"
    using h by (intro find_literal_first) simp_all
  then have "FindStringIndex (MustCompile ''https://'') (URL config)
          = Some (length pre, length pre + length ''https://'')"
    using h by (simp add: MustCompile_def)
  moreover have "splice_at config (length pre, length pre + length ''https://'')
          = Returns (pre @ ''https://'' @ Username config @ '':'' @ Password config @ ''@'' @ post)"
    using h by (intro splice_at_match) simp
  ultimately show "InjectAuthString config = Returns (pre @ ''https://'' @ Username config @ '':'' @ Password config @ ''@'' @ post)"
    using none by (simp add: InjectAuthString_def Let_def)
qed

theorem InjectAuthString_splices_after_scheme_witness:
  "InjectAuthString \<lparr>Username = ''admin'', Password = ''pw'', URL = ''https://a/http://b''\<rparr>
     = Returns ''https://a/http://admin:pw@b''
   \<and> InjectAuthString \<lparr>Username = ''admin'', Password = ''pw'', URL = ''https://grafana:3000''\<rparr>
     = Returns ''https://admin:pw@grafana:3000''"
proof
  show "InjectAuthString \<lparr>Username = ''admin'', Password = ''pw'', URL = ''https://a/http://b''\<rparr>
     = Returns ''https://a/http://admin:pw@b''"
    using InjectAuthString_splices_after_scheme
      [of "\<lparr>Username = ''admin'', Password = ''pw'', URL = ''https://a/http://b''\<rparr>"
          "''https://a/''" "''b''"]
    by (simp add: sublist_Cons_right)
  show "InjectAuthString \<lparr>Username = ''admin'', Password = ''pw'', URL = ''https://grafana:3000''\<rparr>
     = Returns ''https://admin:pw@grafana:3000''"
    using InjectAuthString_splices_after_scheme
      [of "\<lparr>Username = ''admin'', Password = ''pw'', URL = ''https://grafana:3000''\<rparr>"
          "''''" "''grafana:3000''"]
    by (simp add: sublist_Cons_right)
qed

text \<open>
  Claim C2. When the URL contains neither \<open>http://\<close> nor \<open>https://\<close>,
  \<open>InjectAuthString\<close> returns the empty string; it does not panic.
\<close>

theorem InjectAuthString_without_scheme:
  "\<not> sublist ''http://'' (URL config) \<Longrightarrow> \<not> sublist ''https://'' (URL config)
    \<Longrightarrow> InjectAuthString config = Returns ''''"
proof -
  assume "\<not> sublist ''http://'' (URL config)"
  then have http: "FindStringIndex (MustCompile ''http://'') (URL config) = None"
    by (simp add: MustCompile_def find_literal_None)
  assume "\<not> sublist ''https://'' (URL config)"
  then have https: "FindStringIndex (MustCompile ''https://'') (URL config) = None"
    by (simp add: MustCompile_def find_literal_None)
  show ?thesis
    by (simp add: InjectAuthString_def Let_def http https)
qed

theorem InjectAuthString_without_scheme_witness:
  "\<not> sublist ''http://'' ''grafana:3000'' \<and> \<not> sublist ''https://'' ''grafana:3000''
   \<and> InjectAuthString \<lparr>Username = ''admin'', Password = ''pw'', URL = ''grafana:3000''\<rparr> = Returns ''''"
  using InjectAuthString_without_scheme
      [of "\<lparr>Username = ''admin'', Password = ''pw'', URL = ''grafana:3000''\<rparr>"]
  by (simp add: sublist_Cons_right)

section \<open>Properties of \<open>Init\<close>\<close>

text \<open>
  The table that each statement of \<open>Init\<close> names, and the behaviour of \<open>Ping\<close>, of one
  block of \<open>Init\<close> and of \<open>Init\<close> itself by cases on what the library answers.
\<close>

lemma table_name_Init_statements:
  "table_name Schedule_statement = Some ''Schedule''"
  "table_name Config_statement = Some ''Config''"
  "table_name ReportGroup_statement = Some ''ReportGroup''"
  "table_name ReportGroupMembership_statement = Some ''ReportGroupMembership''"
  "table_name ReportContent_statement = Some ''ReportContent''"
  by (simp_all add: table_name_def create_table_if_not_exists_def Schedule_statement_def
      Config_statement_def ReportGroup_statement_def ReportGroupMembership_statement_def
      ReportContent_statement_def)

lemma Ping_cases:
  "Ping w ds =
     (case ping_Open w of
        Some e \<Rightarrow> Panics NilPointerDereference
      | None \<Rightarrow> Returns (ping_Ping w))"
  by (cases "ping_Ping w")
     (simp_all add: Ping_def sql_Open_def deferred_def DB_Close_def Let_def split: option.splits)

lemma prepare_and_exec_cases:
  "prepare_and_exec w q db =
     (case init_Prepare w q of
        Some e \<Rightarrow> (db, Panics NilPointerDereference)
      | None \<Rightarrow> ((case init_Exec w q of Some e \<Rightarrow> db | None \<Rightarrow> sqlite_exec q db), Returns ()))"
  by (simp add: prepare_and_exec_def DB_Prepare_def Stmt_Exec_def split: option.splits)

lemma sqlite_exec_filter:
  "table_name q = Some n \<Longrightarrow>
   sqlite_exec q db = db @ filter (\<lambda>(name, q'). name \<notin> set (map fst db)) [(n, q)]"
  by (simp add: sqlite_exec_def)

lemma create_tables_succeeds:
  "\<forall>q \<in> set qs. init_Prepare w q = None \<and> init_Exec w q = None \<and> table_name q \<noteq> None
   \<Longrightarrow> distinct (map (\<lambda>q. the (table_name q)) qs)
   \<Longrightarrow> create_tables w qs db =
        (db @ filter (\<lambda>(name, q'). name \<notin> set (map fst db)) (map (\<lambda>q. (the (table_name q), q)) qs),
         Returns ())"
proof (induction qs arbitrary: db)
  case Nil
  then show ?case by simp
next
  case (Cons q qs)
  from Cons.prems(1) obtain n where n: "table_name q = Some n" by auto
  let ?db' = "sqlite_exec q db"
  have step: "prepare_and_exec w q db = (?db', Returns ())"
    using Cons.prems(1) by (simp add: prepare_and_exec_cases)
  have fresh: "n \<notin> set (map (\<lambda>q. the (table_name q)) qs)"
    using Cons.prems(2) n by simp
  have same: "filter (\<lambda>(name, q'). name \<notin> set (map fst ?db')) (map (\<lambda>q. (the (table_name q), q)) qs)
            = filter (\<lambda>(name, q'). name \<notin> set (map fst db)) (map (\<lambda>q. (the (table_name q), q)) qs)"
    using fresh by (intro filter_cong) (auto simp: sqlite_exec_def n)
  have "create_tables w qs ?db' =
        (?db' @ filter (\<lambda>(name, q'). name \<notin> set (map fst ?db')) (map (\<lambda>q. (the (table_name q), q)) qs),
         Returns ())"
    using Cons.prems by (intro Cons.IH) simp_all
  then show ?case
    using step same n by (simp add: sqlite_exec_filter[OF n])
qed

lemma create_tables_existing:
  "\<forall>q \<in> set qs. \<exists>n. table_name q = Some n \<and> n \<in> set (map fst db)
   \<Longrightarrow> fst (create_tables w qs db) = db"
proof (induction qs)
  case Nil
  then show ?case by simp
next
  case (Cons q qs)
  then obtain n where "table_name q = Some n" "n \<in> set (map fst db)" by auto
  then have "sqlite_exec q db = db" by (simp add: sqlite_exec_def)
  then have "fst (prepare_and_exec w q db) = db"
    by (simp add: prepare_and_exec_cases split: option.splits)
  with Cons show ?case
    by (cases "prepare_and_exec w q db") (auto split: outcome.splits)
qed

lemma create_tables_returns:
  "snd (create_tables w qs db) = Returns () \<longleftrightarrow> (\<forall>q \<in> set qs. init_Prepare w q = None)"
proof (induction qs arbitrary: db)
  case Nil
  then show ?case by simp
next
  case (Cons q qs)
  then show ?case
    by (cases "init_Prepare w q") (simp_all add: prepare_and_exec_cases)
qed

lemma Init_cases:
  "Init w ds db0 =
     (case Ping (init_ping w) ds of
        Panics p \<Rightarrow> (db0, Panics p)
      | Returns (Some e) \<Rightarrow> (db0, Panics (PanicError e))
      | Returns None \<Rightarrow>
          (case init_Open w of
             Some e \<Rightarrow> (db0, Panics NilPointerDereference)
           | None \<Rightarrow> create_tables w Init_statements db0))"
  by (simp add: Init_def sql_Open_def deferred_def DB_Close_def
      split: outcome.splits option.splits prod.splits)

lemma Init_statements_tables:
  "map (\<lambda>q. (the (table_name q), q)) Init_statements =
     [(''Schedule'', Schedule_statement), (''Config'', Config_statement),
      (''ReportGroup'', ReportGroup_statement),
      (''ReportGroupMembership'', ReportGroupMembership_statement),
      (''ReportContent'', ReportContent_statement)]"
  by (simp add: Init_statements_def table_name_Init_statements)

lemma Init_statements_names:
  "map (\<lambda>q. the (table_name q)) Init_statements =
     [''Schedule'', ''Config'', ''ReportGroup'', ''ReportGroupMembership'', ''ReportContent'']"
  by (simp add: Init_statements_def table_name_Init_statements)

lemma Init_statements_named: "q \<in> set Init_statements \<Longrightarrow> table_name q \<noteq> None"
  by (auto simp: Init_statements_def table_name_Init_statements)

lemma Init_first_run:
  assumes "Ping (init_ping w) ds = Returns None" "init_Open w = None"
      "\<forall>q \<in> set Init_statements. init_Prepare w q = None \<and> init_Exec w q = None"
  shows "Init w ds db0 =
           (db0 @ filter (\<lambda>(name, q). name \<notin> set (map fst db0))
              [(''Schedule'', Schedule_statement), (''Config'', Config_statement),
               (''ReportGroup'', ReportGroup_statement),
               (''ReportGroupMembership'', ReportGroupMembership_statement),
               (''ReportContent'', ReportContent_statement)],
            Returns ())"
proof -
  have "distinct (map (\<lambda>q. the (table_name q)) Init_statements)"
    by (simp add: Init_statements_names)
  moreover have "\<forall>q \<in> set Init_statements.
      init_Prepare w q = None \<and> init_Exec w q = None \<and> table_name q \<noteq> None"
    using assms(3) Init_statements_named by blast
  ultimately have "create_tables w Init_statements db0 =
      (db0 @ filter (\<lambda>(name, q). name \<notin> set (map fst db0))
              [(''Schedule'', Schedule_statement), (''Config'', Config_statement),
               (''ReportGroup'', ReportGroup_statement),
               (''ReportGroupMembership'', ReportGroupMembership_statement),
               (''ReportContent'', ReportContent_statement)],
            Returns ())"
    using create_tables_succeeds [of Init_statements w db0]
    by (simp only: Init_statements_tables)
  then show ?thesis
    using assms(1,2) by (simp add: Init_cases)
qed

lemma Init_rerun_schema:
  assumes "{''Schedule'', ''Config'', ''ReportGroup'', ''ReportGroupMembership'', ''ReportContent''}
             \<subseteq> set (map fst db)"
  shows "fst (Init w ds db) = db"
proof -
  have "\<forall>q \<in> set Init_statements. \<exists>n. table_name q = Some n \<and> n \<in> set (map fst db)"
    using assms by (simp add: Init_statements_def table_name_Init_statements)
  then have "fst (create_tables w Init_statements db) = db"
    by (rule create_tables_existing)
  then show ?thesis
    by (simp add: Init_cases split: outcome.splits option.splits)
qed

lemma Init_returns_iff:
  "snd (Init w ds db0) = Returns () \<longleftrightarrow>
     Ping (init_ping w) ds = Returns None \<and> init_Open w = None
     \<and> (\<forall>q \<in> set Init_statements. init_Prepare w q = None)"
  by (simp add: Init_cases create_tables_returns split: outcome.splits option.splits)


text \<open>
  Claim C3. When every call that \<open>Init\<close> makes into the library succeeds, \<open>Init\<close>
  returns and has added to the database exactly those of the five tables \<open>Schedule\<close>,
  \<open>Config\<close>, \<open>ReportGroup\<close>, \<open>ReportGroupMembership\<close> and \<open>ReportContent\<close> that it
  did not hold yet, in this order and nothing else; the statement of each is
  \<open>CREATE TABLE IF NOT EXISTS\<close> followed by the name of the table. \<open>Init\<close> is
  idempotent: run again on the database that such a run has left (with library answers
  \<open>w'\<close> that may differ, as long as opening, pinging and preparing succeed), it returns
  without a panic and leaves the database as it was; and whatever the library answers
  in the second run (\<open>w''\<close>), the database stays as it was.
\<close>

theorem Init_creates_five_tables_idempotently:
  assumes first:
      "Ping (init_ping w) ds = Returns None" "init_Open w = None"
      "\<forall>q \<in> set Init_statements. init_Prepare w q = None \<and> init_Exec w q = None"
    and again:
      "Ping (init_ping w') ds' = Returns None" "init_Open w' = None"
      "\<forall>q \<in> set Init_statements. init_Prepare w' q = None"
  shows "Init w ds db0 =
           (db0 @ filter (\<lambda>(name, q). name \<notin> set (map fst db0))
              [(''Schedule'', Schedule_statement), (''Config'', Config_statement),
               (''ReportGroup'', ReportGroup_statement),
               (''ReportGroupMembership'', ReportGroupMembership_statement),
               (''ReportContent'', ReportContent_statement)],
            Returns ())
       \<and> list_all (\<lambda>(name, q). prefix (''CREATE TABLE IF NOT EXISTS '' @ name @ '' ('') q)
              [(''Schedule'', Schedule_statement), (''Config'', Config_statement),
               (''ReportGroup'', ReportGroup_statement),
               (''ReportGroupMembership'', ReportGroupMembership_statement),
               (''ReportContent'', ReportContent_statement)]
       \<and> Init w' ds' (fst (Init w ds db0)) = (fst (Init w ds db0), Returns ())
       \<and> fst (Init w'' ds'' (fst (Init w ds db0))) = fst (Init w ds db0)"
proof -
  let ?five = "[(''Schedule'', Schedule_statement), (''Config'', Config_statement),
               (''ReportGroup'', ReportGroup_statement),
               (''ReportGroupMembership'', ReportGroupMembership_statement),
               (''ReportContent'', ReportContent_statement)]"
  let ?db1 = "db0 @ filter (\<lambda>(name, q). name \<notin> set (map fst db0)) ?five"
  have run: "Init w ds db0 = (?db1, Returns ())"
    using first by (rule Init_first_run)
  have stmts: "list_all (\<lambda>(name, q). prefix (''CREATE TABLE IF NOT EXISTS '' @ name @ '' ('') q) ?five"
    by (simp add: Schedule_statement_def Config_statement_def ReportGroup_statement_def
        ReportGroupMembership_statement_def ReportContent_statement_def)
  have names: "{''Schedule'', ''Config'', ''ReportGroup'', ''ReportGroupMembership'', ''ReportContent''}
      \<subseteq> set (map fst ?db1)"
    by auto
  have unchanged: "fst (Init v vs ?db1) = ?db1" for v vs
    using names by (rule Init_rerun_schema)
  have "snd (Init w' ds' ?db1) = Returns ()"
    using again by (simp only: Init_returns_iff simp_thms)
  with unchanged [of w' ds'] have rerun: "Init w' ds' ?db1 = (?db1, Returns ())"
    by (simp add: prod_eq_iff)
  from run stmts rerun unchanged [of w'' ds''] show ?thesis
    by (simp only: fst_conv simp_thms)
qed

theorem Init_creates_five_tables_idempotently_witness:
  "Init \<lparr>init_ping = \<lparr>ping_Open = None, ping_Ping = None\<rparr>, init_Open = None,
          init_Prepare = (\<lambda>q. None), init_Exec = (\<lambda>q. None)\<rparr>
        \<lparr>instanceManager = NewInstanceManager, Path = ''../data/msupply.db''\<rparr> []
     = ([(''Schedule'', Schedule_statement), (''Config'', Config_statement),
         (''ReportGroup'', ReportGroup_statement),
         (''ReportGroupMembership'', ReportGroupMembership_statement),
         (''ReportContent'', ReportContent_statement)], Returns ())
   \<and> Init \<lparr>init_ping = \<lparr>ping_Open = None, ping_Ping = None\<rparr>, init_Open = None,
          init_Prepare = (\<lambda>q. None), init_Exec = (\<lambda>q. Some ''database is locked'')\<rparr>
        \<lparr>instanceManager = NewInstanceManager, Path = ''../data/msupply.db''\<rparr>
        [(''Schedule'', Schedule_statement), (''Config'', Config_statement),
         (''ReportGroup'', ReportGroup_statement),
         (''ReportGroupMembership'', ReportGroupMembership_statement),
         (''ReportContent'', ReportContent_statement)]
     = ([(''Schedule'', Schedule_statement), (''Config'', Config_statement),
         (''ReportGroup'', ReportGroup_statement),
         (''ReportGroupMembership'', ReportGroupMembership_statement),
         (''ReportContent'', ReportContent_statement)], Returns ())"
  using Init_creates_five_tables_idempotently
    [of "\<lparr>init_ping = \<lparr>ping_Open = None, ping_Ping = None\<rparr>, init_Open = None,
          init_Prepare = (\<lambda>q. None), init_Exec = (\<lambda>q. None)\<rparr>"
        "\<lparr>instanceManager = NewInstanceManager, Path = ''../data/msupply.db''\<rparr>"
        "\<lparr>init_ping = \<lparr>ping_Open = None, ping_Ping = None\<rparr>, init_Open = None,
          init_Prepare = (\<lambda>q. None), init_Exec = (\<lambda>q. Some ''database is locked'')\<rparr>"
        "\<lparr>instanceManager = NewInstanceManager, Path = ''../data/msupply.db''\<rparr>"
        "[]"
        "\<lparr>init_ping = \<lparr>ping_Open = None, ping_Ping = None\<rparr>, init_Open = None,
          init_Prepare = (\<lambda>q. None), init_Exec = (\<lambda>q. None)\<rparr>"
        "\<lparr>instanceManager = NewInstanceManager, Path = ''../data/msupply.db''\<rparr>"]
  by (simp add: Ping_cases, elim conjE, simp)



section \<open>Properties of the test-email handler\<close>

text \<open>
  Claim C5. On a response writer that nothing has been written to yet, an error of
  \<open>NewEmailConfig\<close>, of \<open>NewAuthConfig\<close> or of \<open>GetSettings\<close> makes the handler
  write status 500 with the text of the error and a newline as the body, and an
  error of \<open>GetSchedule\<close> makes it write status 400 in the same way. In each of the
  four cases the handler then panics with that error: the response is already written
  when it panics, and \<open>CreateReport\<close> has not been called.
\<close>

theorem testEmail_error_then_panic:
  "(rw_status rw = None \<and> answer_NewEmailConfig w = Inl err
      \<longrightarrow> testEmail w rw request =
            ((rw\<lparr>rw_status := Some 500, rw_body := rw_body rw @ err @ [CHR 0x0A]\<rparr>, []),
             Panics (PanicError err)))
   \<and> (rw_status rw = None \<and> answer_NewEmailConfig w = Inr emailConfig
        \<and> NewAuthConfig (answer_NewAuthConfig_GetSettings w) = Inl err
      \<longrightarrow> testEmail w rw request =
            ((rw\<lparr>rw_status := Some 500, rw_body := rw_body rw @ err @ [CHR 0x0A]\<rparr>, []),
             Panics (PanicError err)))
   \<and> (rw_status rw = None \<and> answer_NewEmailConfig w = Inr emailConfig
        \<and> NewAuthConfig (answer_NewAuthConfig_GetSettings w) = Inr authConfig
        \<and> answer_GetSettings w = Inl err
      \<longrightarrow> testEmail w rw request =
            ((rw\<lparr>rw_status := Some 500, rw_body := rw_body rw @ err @ [CHR 0x0A]\<rparr>, []),
             Panics (PanicError err)))
   \<and> (rw_status rw = None \<and> answer_NewEmailConfig w = Inr emailConfig
        \<and> NewAuthConfig (answer_NewAuthConfig_GetSettings w) = Inr authConfig
        \<and> answer_GetSettings w = Inr settings
        \<and> answer_GetSchedule w (case Vars request ''schedule-id'' of None \<Rightarrow> [] | Some v \<Rightarrow> v)
            = Inl err
      \<longrightarrow> testEmail w rw request =
            ((rw\<lparr>rw_status := Some 400, rw_body := rw_body rw @ err @ [CHR 0x0A]\<rparr>, []),
             Panics (PanicError err)))"
  by (simp add: testEmail_def http_Error_def WriteHeader_def StatusInternalServerError_def
      StatusBadRequest_def Let_def)

theorem testEmail_error_then_panic_witness:
  "testEmail
     \<lparr>answer_NewEmailConfig = Inl ''no config'',
        answer_NewAuthConfig_GetSettings = Inl ''no settings'',
        answer_GetSettings = Inl ''no settings'',
        answer_GetSchedule = (\<lambda>i. Inl ''no schedule''),
        answer_CreateReport = (\<lambda>c. Returns ())\<rparr>
     \<lparr>rw_status = None, rw_body = ''''\<rparr> \<lparr>Vars = [''schedule-id'' \<mapsto> ''s1'']\<rparr>
     = ((\<lparr>rw_status = Some 500, rw_body = ''no config'' @ [CHR 0x0A]\<rparr>, []),
        Panics (PanicError ''no config''))
   \<and> testEmail
     \<lparr>answer_NewEmailConfig = Inr (),
        answer_NewAuthConfig_GetSettings = Inl ''no settings'',
        answer_GetSettings = Inl ''no settings'',
        answer_GetSchedule = (\<lambda>i. Inl ''no schedule''),
        answer_CreateReport = (\<lambda>c. Returns ())\<rparr>
     \<lparr>rw_status = None, rw_body = ''''\<rparr> \<lparr>Vars = [''schedule-id'' \<mapsto> ''s1'']\<rparr>
     = ((\<lparr>rw_status = Some 500, rw_body = ''no settings'' @ [CHR 0x0A]\<rparr>, []),
        Panics (PanicError ''no settings''))
   \<and> testEmail
     \<lparr>answer_NewEmailConfig = Inr (),
        answer_NewAuthConfig_GetSettings =
          Inr \<lparr>GrafanaUsername = ''admin'', GrafanaPassword = ''pw'',
               GrafanaURL = ''http://grafana:3000'', DatasourceID = 1\<rparr>,
        answer_GetSettings = Inl ''settings gone'',
        answer_GetSchedule = (\<lambda>i. Inl ''no schedule''),
        answer_CreateReport = (\<lambda>c. Returns ())\<rparr>
     \<lparr>rw_status = None, rw_body = ''''\<rparr> \<lparr>Vars = [''schedule-id'' \<mapsto> ''s1'']\<rparr>
     = ((\<lparr>rw_status = Some 500, rw_body = ''settings gone'' @ [CHR 0x0A]\<rparr>, []),
        Panics (PanicError ''settings gone''))
   \<and> testEmail
     \<lparr>answer_NewEmailConfig = Inr (),
        answer_NewAuthConfig_GetSettings =
          Inr \<lparr>GrafanaUsername = ''admin'', GrafanaPassword = ''pw'',
               GrafanaURL = ''http://grafana:3000'', DatasourceID = 1\<rparr>,
        answer_GetSettings =
          Inr \<lparr>GrafanaUsername = ''admin'', GrafanaPassword = ''pw'',
               GrafanaURL = ''http://grafana:3000'', DatasourceID = 1\<rparr>,
        answer_GetSchedule = (\<lambda>i. Inl (''no schedule '' @ i)),
        answer_CreateReport = (\<lambda>c. Returns ())\<rparr>
     \<lparr>rw_status = None, rw_body = ''''\<rparr> \<lparr>Vars = [''schedule-id'' \<mapsto> ''s1'']\<rparr>
     = ((\<lparr>rw_status = Some 400, rw_body = ''no schedule s1'' @ [CHR 0x0A]\<rparr>, []),
        Panics (PanicError ''no schedule s1''))"
proof (intro conjI)
  show "testEmail
     \<lparr>answer_NewEmailConfig = Inl ''no config'',
        answer_NewAuthConfig_GetSettings = Inl ''no settings'',
        answer_GetSettings = Inl ''no settings'',
        answer_GetSchedule = (\<lambda>i. Inl ''no schedule''),
        answer_CreateReport = (\<lambda>c. Returns ())\<rparr>
     \<lparr>rw_status = None, rw_body = ''''\<rparr> \<lparr>Vars = [''schedule-id'' \<mapsto> ''s1'']\<rparr>
     = ((\<lparr>rw_status = Some 500, rw_body = ''no config'' @ [CHR 0x0A]\<rparr>, []),
        Panics (PanicError ''no config''))"
    using testEmail_error_then_panic
      [where rw = "\<lparr>rw_status = None, rw_body = ''''\<rparr>"
         and request = "\<lparr>Vars = [''schedule-id'' \<mapsto> ''s1'']\<rparr>"
         and err = "''no config''"
         and w = "\<lparr>answer_NewEmailConfig = Inl ''no config'',
        answer_NewAuthConfig_GetSettings = Inl ''no settings'',
        answer_GetSettings = Inl ''no settings'',
        answer_GetSchedule = (\<lambda>i. Inl ''no schedule''),
        answer_CreateReport = (\<lambda>c. Returns ())\<rparr>"]
    by simp
  show "testEmail
     \<lparr>answer_NewEmailConfig = Inr (),
        answer_NewAuthConfig_GetSettings = Inl ''no settings'',
        answer_GetSettings = Inl ''no settings'',
        answer_GetSchedule = (\<lambda>i. Inl ''no schedule''),
        answer_CreateReport = (\<lambda>c. Returns ())\<rparr>
     \<lparr>rw_status = None, rw_body = ''''\<rparr> \<lparr>Vars = [''schedule-id'' \<mapsto> ''s1'']\<rparr>
     = ((\<lparr>rw_status = Some 500, rw_body = ''no settings'' @ [CHR 0x0A]\<rparr>, []),
        Panics (PanicError ''no settings''))"
    using testEmail_error_then_panic
      [where rw = "\<lparr>rw_status = None, rw_body = ''''\<rparr>"
         and request = "\<lparr>Vars = [''schedule-id'' \<mapsto> ''s1'']\<rparr>"
         and err = "''no settings''" and emailConfig = "()"
         and w = "\<lparr>answer_NewEmailConfig = Inr (),
        answer_NewAuthConfig_GetSettings = Inl ''no settings'',
        answer_GetSettings = Inl ''no settings'',
        answer_GetSchedule = (\<lambda>i. Inl ''no schedule''),
        answer_CreateReport = (\<lambda>c. Returns ())\<rparr>"]
    by (simp add: NewAuthConfig_def)
  show "testEmail
     \<lparr>answer_NewEmailConfig = Inr (),
        answer_NewAuthConfig_GetSettings =
          Inr \<lparr>GrafanaUsername = ''admin'', GrafanaPassword = ''pw'',
               GrafanaURL = ''http://grafana:3000'', DatasourceID = 1\<rparr>,
        answer_GetSettings = Inl ''settings gone'',
        answer_GetSchedule = (\<lambda>i. Inl ''no schedule''),
        answer_CreateReport = (\<lambda>c. Returns ())\<rparr>
     \<lparr>rw_status = None, rw_body = ''''\<rparr> \<lparr>Vars = [''schedule-id'' \<mapsto> ''s1'']\<rparr>
     = ((\<lparr>rw_status = Some 500, rw_body = ''settings gone'' @ [CHR 0x0A]\<rparr>, []),
        Panics (PanicError ''settings gone''))"
    using testEmail_error_then_panic
      [where rw = "\<lparr>rw_status = None, rw_body = ''''\<rparr>"
         and request = "\<lparr>Vars = [''schedule-id'' \<mapsto> ''s1'']\<rparr>"
         and err = "''settings gone''" and emailConfig = "()"
         and authConfig = "\<lparr>Username = ''admin'', Password = ''pw'', URL = ''http://grafana:3000''\<rparr>"
         and w = "\<lparr>answer_NewEmailConfig = Inr (),
        answer_NewAuthConfig_GetSettings =
          Inr \<lparr>GrafanaUsername = ''admin'', GrafanaPassword = ''pw'',
               GrafanaURL = ''http://grafana:3000'', DatasourceID = 1\<rparr>,
        answer_GetSettings = Inl ''settings gone'',
        answer_GetSchedule = (\<lambda>i. Inl ''no schedule''),
        answer_CreateReport = (\<lambda>c. Returns ())\<rparr>"]
    by (simp add: NewAuthConfig_def)
  show "testEmail
     \<lparr>answer_NewEmailConfig = Inr (),
        answer_NewAuthConfig_GetSettings =
          Inr \<lparr>GrafanaUsername = ''admin'', GrafanaPassword = ''pw'',
               GrafanaURL = ''http://grafana:3000'', DatasourceID = 1\<rparr>,
        answer_GetSettings =
          Inr \<lparr>GrafanaUsername = ''admin'', GrafanaPassword = ''pw'',
               GrafanaURL = ''http://grafana:3000'', DatasourceID = 1\<rparr>,
        answer_GetSchedule = (\<lambda>i. Inl (''no schedule '' @ i)),
        answer_CreateReport = (\<lambda>c. Returns ())\<rparr>
     \<lparr>rw_status = None, rw_body = ''''\<rparr> \<lparr>Vars = [''schedule-id'' \<mapsto> ''s1'']\<rparr>
     = ((\<lparr>rw_status = Some 400, rw_body = ''no schedule s1'' @ [CHR 0x0A]\<rparr>, []),
        Panics (PanicError ''no schedule s1''))"
    using testEmail_error_then_panic
      [where rw = "\<lparr>rw_status = None, rw_body = ''''\<rparr>"
         and request = "\<lparr>Vars = [''schedule-id'' \<mapsto> ''s1'']\<rparr>"
         and err = "''no schedule s1''" and emailConfig = "()"
         and authConfig = "\<lparr>Username = ''admin'', Password = ''pw'', URL = ''http://grafana:3000''\<rparr>"
         and settings = "\<lparr>GrafanaUsername = ''admin'', GrafanaPassword = ''pw'',
               GrafanaURL = ''http://grafana:3000'', DatasourceID = 1\<rparr>"
         and w = "\<lparr>answer_NewEmailConfig = Inr (),
        answer_NewAuthConfig_GetSettings =
          Inr \<lparr>GrafanaUsername = ''admin'', GrafanaPassword = ''pw'',
               GrafanaURL = ''http://grafana:3000'', DatasourceID = 1\<rparr>,
        answer_GetSettings =
          Inr \<lparr>GrafanaUsername = ''admin'', GrafanaPassword = ''pw'',
               GrafanaURL = ''http://grafana:3000'', DatasourceID = 1\<rparr>,
        answer_GetSchedule = (\<lambda>i. Inl (''no schedule '' @ i)),
        answer_CreateReport = (\<lambda>c. Returns ())\<rparr>"]
    by (simp add: NewAuthConfig_def)
qed

end
